theory Spec2Isabelle
  imports Main "HOL-Library.Sublist" "HOL-Library.AList"
begin

section \<open>The Path value type of \<^verbatim>\<open>src/types/Path.ts\<close>\<close>

text \<open>
  A shallow embedding of the class \<^verbatim>\<open>Path\<close>. A JavaScript string is a \<open>string\<close>
  (a list of characters), an exception is the left summand of a result
  \<open>error + 'a\<close>, and the ambient filesystem the mutating operations work on is
  an explicit state that every operation takes and returns.

  The class rests on functions it imports: the string and array built-ins of
  JavaScript, the POSIX flavour of the Deno standard library's \<^verbatim>\<open>path\<close> module
  (\<^verbatim>\<open>sys.normalize\<close>, \<^verbatim>\<open>sys.dirname\<close>, \<^verbatim>\<open>sys.basename\<close>), its \<^verbatim>\<open>fs\<close> module
  (\<^verbatim>\<open>fs.moveSync\<close>) and the runtime's filesystem calls (\<^verbatim>\<open>Deno.statSync\<close>, ...).
  None of them is part of the repository; each is modelled below after its
  published behaviour, in a subsection of its own, apart from the methods of the
  class.
\<close>

subsection \<open>Errors\<close>

text \<open>
  The kinds of failure, named as the specification names them. \<open>InvalidPathError\<close>
  is the constructor's \<^verbatim>\<open>Error("invalid absolute path: ...")\<close>, \<open>NotASubpathError\<close>
  is \<^verbatim>\<open>Error("unimpl")\<close> of \<^verbatim>\<open>relative\<close>, \<open>AlreadyExistsError\<close> is
  \<^verbatim>\<open>file-exists:...\<close> of \<^verbatim>\<open>write\<close> and \<^verbatim>\<open>dest already exists.\<close> of \<^verbatim>\<open>moveSync\<close>.
  \<open>NotFoundError\<close> is \<^verbatim>\<open>Deno.errors.NotFound\<close> (ENOENT), \<open>InvalidArgumentError\<close> is
  the \<^verbatim>\<open>TypeError\<close> with code EINVAL that \<^verbatim>\<open>readLinkSync\<close> raises on an entry
  that is no symlink, and \<open>FilesystemError\<close> is every other failure of a
  primitive.
\<close>

datatype error =
    InvalidPathError
  | NotFoundError
  | AlreadyExistsError
  | NotASubpathError
  | DirectoryNotEmptyError
  | IsADirectoryError
  | InvalidArgumentError
  | FilesystemError

subsection \<open>JavaScript string and array built-ins\<close>

text \<open>
  \<^verbatim>\<open>s.split("/")\<close>: the pieces of \<open>s\<close> between the separators. The result is
  never empty: the empty string splits into one empty piece, and \<^verbatim>\<open>"/"\<close> into
  two.
\<close>

fun split_on :: "char \<Rightarrow> string \<Rightarrow> string list" where
  "split_on c [] = [[]]"
| "split_on c (x # xs) =
     (if x = c then [] # split_on c xs
      else (x # hd (split_on c xs)) # tl (split_on c xs))"

text \<open>\<^verbatim>\<open>xs.join("/")\<close>: the empty array joins to the empty string.\<close>

fun join_with :: "string \<Rightarrow> string list \<Rightarrow> string" where
  "join_with sep [] = []"
| "join_with sep [x] = x"
| "join_with sep (x # y # ys) = x @ sep @ join_with sep (y # ys)"

text \<open>\<^verbatim>\<open>s.startsWith(p)\<close>.\<close>

definition startsWith :: "string \<Rightarrow> string \<Rightarrow> bool" where
  "startsWith s p = prefix p s"

text \<open>\<^verbatim>\<open>s[0] == '/'\<close>: false on the empty string, where \<^verbatim>\<open>s[0]\<close> is undefined.\<close>

definition first_is_slash :: "string \<Rightarrow> bool" where
  "first_is_slash s = (case s of [] \<Rightarrow> False | c # _ \<Rightarrow> c = CHR ''/'')"

subsection \<open>The imported path functions (Deno standard library, POSIX)\<close>

text \<open>
  \<^verbatim>\<open>normalizeString\<close> walks the segments of the path from left to right and keeps
  a stack of the segments it retains (\<open>res\<close>, here with its top first): an empty
  segment and \<^verbatim>\<open>.\<close> are skipped, \<^verbatim>\<open>..\<close> removes the last retained segment,
  every other segment is retained. With \<open>allowAboveRoot\<close> (a relative path) a
  \<^verbatim>\<open>..\<close> that has nothing to remove, or only another \<^verbatim>\<open>..\<close>, is retained; without
  it (an absolute path) it is dropped.
\<close>

fun normalizeString :: "bool \<Rightarrow> string list \<Rightarrow> string list \<Rightarrow> string list" where
  "normalizeString allowAboveRoot res [] = rev res"
| "normalizeString allowAboveRoot res (s # ss) =
     (if s = [] \<or> s = ''.'' then normalizeString allowAboveRoot res ss
      else if s = ''..'' then
        (case res of
           [] \<Rightarrow> normalizeString allowAboveRoot (if allowAboveRoot then [''..''] else []) ss
         | r # rs \<Rightarrow>
             if r = ''..'' then
               normalizeString allowAboveRoot (if allowAboveRoot then ''..'' # res else res) ss
             else normalizeString allowAboveRoot rs ss)
      else normalizeString allowAboveRoot (s # res) ss)"

text \<open>
  \<^verbatim>\<open>sys.normalize\<close>: the empty path is \<^verbatim>\<open>"."\<close>; otherwise the retained segments
  are joined with slashes, a relative path with nothing retained is \<^verbatim>\<open>"."\<close>, and
  the leading slash of an absolute path is put back. As in Node's
  \<^verbatim>\<open>path.normalize\<close>, of which the function is a port, a trailing separator of
  the input is kept when anything is left in front of it: \<^verbatim>\<open>normalize("/foo/")\<close>
  is \<^verbatim>\<open>"/foo/"\<close>, and \<^verbatim>\<open>normalize("/foo/../")\<close> is \<^verbatim>\<open>"/"\<close>.
\<close>

definition normalize :: "string \<Rightarrow> string" where
  "normalize path =
     (if path = [] then ''.''
      else
        let isAbsolute = (hd path = CHR ''/'');
            trailingSeparator = (last path = CHR ''/'');
            res = join_with ''/''
                    (normalizeString (\<not> isAbsolute) [] (split_on CHR ''/'' path));
            res1 = (if res = [] \<and> \<not> isAbsolute then ''.'' else res);
            res2 = (if res1 \<noteq> [] \<and> trailingSeparator then res1 @ ''/'' else res1)
        in if isAbsolute then CHR ''/'' # res2 else res2)"

text \<open>
  \<^verbatim>\<open>sys.dirname\<close> scans the path from its end down to index 1: it passes the
  trailing separators, then the last segment, and cuts the path in front of the
  separator it meets next. With no such separator the result is \<^verbatim>\<open>"/"\<close> for an
  absolute path and \<^verbatim>\<open>"."\<close> otherwise.
\<close>

definition dirname :: "string \<Rightarrow> string" where
  "dirname path =
     (if path = [] then ''.''
      else
        let hasRoot = (hd path = CHR ''/'');
            r = dropWhile (\<lambda>c. c = CHR ''/'') (rev (tl path));
            r' = dropWhile (\<lambda>c. c \<noteq> CHR ''/'') r
        in if r' = [] then (if hasRoot then ''/'' else ''.'')
           else if hasRoot \<and> tl r' = [] then ''//''
           else hd path # rev (tl r'))"

text \<open>
  \<^verbatim>\<open>sys.basename\<close> (no suffix to strip): the last segment of the path, trailing
  separators apart.
\<close>

definition basename_str :: "string \<Rightarrow> string" where
  "basename_str path =
     rev (takeWhile (\<lambda>c. c \<noteq> CHR ''/'') (dropWhile (\<lambda>c. c = CHR ''/'') (rev path)))"

subsection \<open>The class: construction, parent, join, relative\<close>

text \<open>The only field of a \<^verbatim>\<open>Path\<close> is its \<^verbatim>\<open>string\<close>.\<close>

datatype path = Path (path_string: string)

text \<open>
  The constructor, on a string: it throws unless the input starts with a slash,
  and stores the normalized input otherwise. (On a \<^verbatim>\<open>Path\<close> it copies the field,
  which in the model is the identity.)
\<close>

definition new_Path :: "string \<Rightarrow> error + path" where
  "new_Path input =
     (if \<not> first_is_slash input then Inl InvalidPathError
      else Inr (Path (normalize input)))"

definition root :: path where
  "root = Path ''/''"


definition join :: "path \<Rightarrow> string list \<Rightarrow> error + path" where
  "join this components =
     (let joined = join_with ''/'' components
      in if first_is_slash joined then new_Path joined
         else if joined \<noteq> [] then new_Path (path_string this @ ''/'' @ joined)
         else Inr this)"

definition basename :: "path \<Rightarrow> string" where
  "basename this = basename_str (path_string this)"

definition eq :: "path \<Rightarrow> path \<Rightarrow> bool" where
  "eq this that = (path_string this = path_string that)"

text \<open>
  \<^verbatim>\<open>relative\<close>: both strings are split at the slashes, a \<^verbatim>\<open>"/"\<close> is put in front
  of each list, and the components of \<open>this\<close> beyond the number of components of
  \<open>base\<close> are joined again, provided the string of \<open>this\<close> starts with the string
  of \<open>base\<close>.
\<close>

definition relative :: "path \<Rightarrow> path \<Rightarrow> error + string" where
  "relative this base =
     (let pathComps = [''/''] @ split_on CHR ''/'' (path_string this);
          baseComps = [''/''] @ split_on CHR ''/'' (path_string base)
      in if startsWith (path_string this) (path_string base)
         then Inr (join_with ''/'' (drop (length baseComps) pathComps))
         else Inl NotASubpathError)"

subsection \<open>The filesystem and the runtime's calls on it\<close>

text \<open>
  The filesystem is the state the class works on. It is modelled as a table from
  absolute path strings to entries: a file with its text, a directory, or a
  symlink with its target. An entry lies inside a directory when its path
  continues the directory's path behind a slash. The table is looked up with the
  string a call is given; permissions, hard links and symlinks in the middle of
  a path are outside the model. Each call of the runtime either succeeds or
  fails without effect. A method of the class that fails returns the error
  alone: the model does not say what an earlier step of the method has left
  behind.
\<close>

datatype node = File string | Dir | Symlink string

type_synonym filesystem = "(string \<times> node) list"

definition under :: "string \<Rightarrow> string \<Rightarrow> bool" where
  "under d q = (q \<noteq> d \<and> prefix (if d = ''/'' then d else d @ ''/'') q)"

definition has_children :: "filesystem \<Rightarrow> string \<Rightarrow> bool" where
  "has_children fs d = list_ex (\<lambda>(q, n). under d q) fs"

text \<open>
  The path a symlink at \<open>p\<close> with target \<open>t\<close> leads to: the target itself when
  it is absolute, and the target read from the directory of the link otherwise.
\<close>

definition link_dest :: "string \<Rightarrow> string \<Rightarrow> string" where
  "link_dest p t =
     (let full = (if first_is_slash t then t else dirname p @ ''/'' @ t)
      in CHR ''/'' # join_with ''/'' (normalizeString False [] (split_on CHR ''/'' full)))"

text \<open>
  Following the symlinks at the end of a path, as \<^verbatim>\<open>stat\<close> and \<^verbatim>\<open>open\<close> do: the
  result is the first path of the chain that holds no symlink (it may hold
  nothing). The system gives up after 40 links (ELOOP).
\<close>

fun resolve :: "nat \<Rightarrow> filesystem \<Rightarrow> string \<Rightarrow> error + string" where
  "resolve 0 fs p =
     (case map_of fs p of Some (Symlink t) \<Rightarrow> Inl FilesystemError | _ \<Rightarrow> Inr p)"
| "resolve (Suc n) fs p =
     (case map_of fs p of Some (Symlink t) \<Rightarrow> resolve n fs (link_dest p t) | _ \<Rightarrow> Inr p)"

definition lstatSync :: "filesystem \<Rightarrow> string \<Rightarrow> error + node" where
  "lstatSync fs p = (case map_of fs p of None \<Rightarrow> Inl NotFoundError | Some n \<Rightarrow> Inr n)"

definition statSync :: "filesystem \<Rightarrow> string \<Rightarrow> error + node" where
  "statSync fs p =
     (case resolve 40 fs p of Inl e \<Rightarrow> Inl e | Inr q \<Rightarrow> lstatSync fs q)"


text \<open>
  \<^verbatim>\<open>Deno.removeSync\<close> removes the entry itself (a symlink is not followed). A
  directory that has entries inside is removed with them when \<open>recursive\<close> is
  set, and not at all otherwise.
\<close>

definition removeSync :: "filesystem \<Rightarrow> string \<Rightarrow> bool \<Rightarrow> error + filesystem" where
  "removeSync fs p recursive =
     (case map_of fs p of
        None \<Rightarrow> Inl NotFoundError
      | Some n \<Rightarrow>
          if n = Dir \<and> has_children fs p then
            (if recursive then Inr (filter (\<lambda>(q, n). q \<noteq> p \<and> \<not> under p q) fs)
             else Inl DirectoryNotEmptyError)
          else Inr (AList.delete p fs))"



text \<open>
  \<^verbatim>\<open>Deno.renameSync\<close>, the system's \<^verbatim>\<open>rename\<close>: the entry at \<open>src\<close>, with
  everything inside it, gets the path \<open>dest\<close>. An entry at \<open>dest\<close> is replaced,
  unless it is a directory and \<open>src\<close> is none (EISDIR), a directory with
  entries inside (ENOTEMPTY), or no directory where \<open>src\<close> is one (ENOTDIR).
\<close>

definition rekey :: "string \<Rightarrow> string \<Rightarrow> string \<Rightarrow> string" where
  "rekey src dest q =
     (if q = src then dest
      else if under src q then dest @ drop (length src) q
      else q)"

definition renameSync :: "filesystem \<Rightarrow> string \<Rightarrow> string \<Rightarrow> error + filesystem" where
  "renameSync fs src dest =
     (case map_of fs src of
        None \<Rightarrow> Inl NotFoundError
      | Some n \<Rightarrow>
          if src = dest then Inr fs
          else if src = ''/'' \<or> (n = Dir \<and> under src dest) then Inl InvalidArgumentError
          else
            (case map_of fs dest of
               None \<Rightarrow> Inr (map (\<lambda>(q, m). (rekey src dest q, m)) fs)
             | Some Dir \<Rightarrow>
                 if n \<noteq> Dir then Inl IsADirectoryError
                 else if has_children fs dest then Inl DirectoryNotEmptyError
                 else Inr (map (\<lambda>(q, m). (rekey src dest q, m)) (AList.delete dest fs))
             | Some _ \<Rightarrow>
                 if n = Dir then Inl FilesystemError
                 else Inr (map (\<lambda>(q, m). (rekey src dest q, m)) (AList.delete dest fs))))"

subsection \<open>The imported \<^verbatim>\<open>fs.moveSync\<close> (Deno standard library)\<close>

text \<open>
  \<^verbatim>\<open>existsSync\<close> asks \<^verbatim>\<open>lstat\<close>, so a symlink exists whatever it points to.
\<close>

definition existsSync :: "filesystem \<Rightarrow> string \<Rightarrow> error + bool" where
  "existsSync fs p =
     (case lstatSync fs p of
        Inr _ \<Rightarrow> Inr True
      | Inl e \<Rightarrow> if e = NotFoundError then Inr False else Inl e)"

definition isSubdir :: "string \<Rightarrow> string \<Rightarrow> bool" where
  "isSubdir src dest =
     (if src = dest then False
      else prefix (split_on CHR ''/'' src) (split_on CHR ''/'' dest))"

text \<open>
  \<^verbatim>\<open>moveSync(src, dest, {overwrite = false})\<close> takes four steps, in this order:
  \<^enum> \<^verbatim>\<open>Deno.statSync(src)\<close>, whose error comes out as it is;
  \<^enum> a source that is a directory with \<^verbatim>\<open>isSubdir(src, dest)\<close> is refused
    (\<^verbatim>\<open>Cannot move ... to a subdirectory of itself\<close>);
  \<^enum> with \<open>overwrite\<close>, a destination that \<^verbatim>\<open>existsSync\<close> finds is removed by
    \<^verbatim>\<open>Deno.removeSync(dest, {recursive: true})\<close>; without it, such a destination
    is refused (\<^verbatim>\<open>dest already exists.\<close>);
  \<^enum> \<^verbatim>\<open>Deno.renameSync(src, dest)\<close>.

  \<^verbatim>\<open>isSubdir\<close> compares the two paths piece by piece, split at the separator;
  equal paths are no subdirectory of each other.
\<close>

definition moveSync :: "filesystem \<Rightarrow> string \<Rightarrow> string \<Rightarrow> bool \<Rightarrow> error + filesystem" where
  "moveSync fs src dest overwrite =
     (case statSync fs src of
        Inl e \<Rightarrow> Inl e
      | Inr srcStat \<Rightarrow>
          if srcStat = Dir \<and> isSubdir src dest then Inl FilesystemError
          else
            (case existsSync fs dest of
               Inl e \<Rightarrow> Inl e
             | Inr there \<Rightarrow>
                 if overwrite then
                   (if there then
                      (case removeSync fs dest True of
                         Inl e \<Rightarrow> Inl e
                       | Inr fs' \<Rightarrow> renameSync fs' src dest)
                    else renameSync fs src dest)
                 else
                   (if there then Inl AlreadyExistsError
                    else renameSync fs src dest)))"

subsection \<open>The class: queries and mutating operations\<close>

text \<open>An optional boolean argument (\<^verbatim>\<open>force?: boolean\<close>) is absent, false or true.\<close>

definition truthy :: "bool option \<Rightarrow> bool" where
  "truthy b = (b = Some True)"

definition exists :: "filesystem \<Rightarrow> path \<Rightarrow> error + bool" where
  "exists fs this =
     (case statSync fs (path_string this) of
        Inr _ \<Rightarrow> Inr True
      | Inl e \<Rightarrow> if e = NotFoundError then Inr False else Inl e)"







text \<open>\<^verbatim>\<open>mv\<close> is given either the destination (\<open>to\<close>) or its directory (\<open>into\<close>).\<close>

datatype mv_opts = To path | Into path

definition mv :: "filesystem \<Rightarrow> path \<Rightarrow> mv_opts \<Rightarrow> bool option \<Rightarrow> error + (filesystem \<times> path)" where
  "mv fs this opts force =
     (case opts of
        To to \<Rightarrow>
          (case moveSync fs (path_string this) (path_string to) (truthy force) of
             Inl e \<Rightarrow> Inl e
           | Inr fs' \<Rightarrow> Inr (fs', to))
      | Into into \<Rightarrow>
          (case join into [basename this] of
             Inl e \<Rightarrow> Inl e
           | Inr dst \<Rightarrow>
               (case moveSync fs (path_string this) (path_string dst) (truthy force) of
                  Inl e \<Rightarrow> Inl e
                | Inr fs' \<Rightarrow> Inr (fs', dst))))"

subsection \<open>Invariants of the stored string\<close>

text \<open>
  The segments of an absolute string are the pieces behind its first slash.
\<close>

definition segments :: "string \<Rightarrow> string list" where
  "segments s = tl (split_on CHR ''/'' s)"

definition no_trailing_slash :: "string \<Rightarrow> bool" where
  "no_trailing_slash s = (s = ''/'' \<or> last s \<noteq> CHR ''/'')"


text \<open>
  The invariant the constructor establishes: the string starts with a slash, has
  no \<^verbatim>\<open>.\<close> or \<^verbatim>\<open>..\<close> segment, and no empty segment but possibly the last one, which
  is empty exactly when the string ends with a slash.
\<close>

definition path_invariant :: "string \<Rightarrow> bool" where
  "path_invariant s =
     (first_is_slash s \<and> ''.'' \<notin> set (segments s) \<and> ''..'' \<notin> set (segments s)
      \<and> [] \<notin> set (butlast (segments s)))"

section \<open>Properties\<close>

subsection \<open>Splitting and joining\<close>

lemma split_on_nonempty [simp]: "split_on c s \<noteq> []"
  by (induction s) auto

lemma split_on_no_sep: "x \<in> set (split_on c s) \<Longrightarrow> c \<notin> set x"
proof (induction s arbitrary: x)
  case Nil
  then show ?case by simp
next
  case (Cons a s)
  obtain h t where ht: "split_on c s = h # t"
    by (cases "split_on c s") auto
  with Cons show ?case
    by (auto split: if_splits)
qed




lemma join_split: "join_with [c] (split_on c s) = s"
proof (induction s)
  case Nil
  then show ?case by simp
next
  case (Cons a s)
  obtain h r where hr: "split_on c s = h # r"
    by (cases "split_on c s") auto
  with Cons show ?case by (cases r) auto
qed

lemma first_is_slash_iff: "first_is_slash s \<longleftrightarrow> (\<exists>t. s = CHR ''/'' # t)"
  by (cases s) (auto simp: first_is_slash_def)

lemma first_is_slash_append: "first_is_slash s \<Longrightarrow> first_is_slash (s @ t)"
  by (cases s) (auto simp: first_is_slash_def)

lemma segments_slash: "segments (CHR ''/'' # s) = split_on CHR ''/'' s"
  by (simp add: segments_def)

subsection \<open>Normalization\<close>





lemma new_Path_ok:
  "first_is_slash input \<Longrightarrow> new_Path input = Inr (Path (normalize input))"
  by (simp add: new_Path_def)








lemma last_split_on: "last (split_on c s) = [] \<longleftrightarrow> s = [] \<or> last s = c"
proof (induction s)
  case Nil
  then show ?case by simp
next
  case (Cons a s)
  obtain h r where hr: "split_on c s = h # r"
    by (cases "split_on c s") auto
  with Cons show ?case
    by (cases s) (auto split: if_splits)
qed

lemma join_with_append:
  "xs \<noteq> [] \<Longrightarrow> ys \<noteq> [] \<Longrightarrow>
     join_with sep (xs @ ys) = join_with sep xs @ sep @ join_with sep ys"
proof (induction sep xs rule: join_with.induct)
  case (1 sep)
  then show ?case by simp
next
  case (2 sep x)
  then show ?case by (cases ys) auto
next
  case (3 sep x y ys)
  then show ?case by simp
qed

lemma normalizeString_proper:
  "\<forall>s\<in>set ss. s \<noteq> [] \<and> s \<noteq> ''.'' \<and> s \<noteq> ''..'' \<Longrightarrow>
     normalizeString a res ss = rev res @ ss"
  by (induction ss arbitrary: res) auto

text \<open>
  A string that satisfies the invariant and has no trailing slash has only
  proper segments, and normalization leaves it as it is.
\<close>

lemma strict_segments:
  assumes "path_invariant s" and "no_trailing_slash s" and "s \<noteq> ''/''"
  shows "\<forall>x\<in>set (segments s). x \<noteq> [] \<and> x \<noteq> ''.'' \<and> x \<noteq> ''..''"
proof -
  from assms(1) obtain t where t: "s = CHR ''/'' # t"
    by (auto simp: path_invariant_def first_is_slash_iff)
  with assms(3) have ne: "t \<noteq> []" by simp
  with assms(2) t have "last t \<noteq> CHR ''/''"
    by (simp add: no_trailing_slash_def)
  with ne have "last (split_on CHR ''/'' t) \<noteq> []"
    by (simp add: last_split_on)
  then have "[] \<notin> set (butlast (split_on CHR ''/'' t)) \<Longrightarrow> [] \<notin> set (split_on CHR ''/'' t)"
    by (metis append_butlast_last_id split_on_nonempty set_ConsD rotate1.simps(2) set_rotate1)
  with assms(1) t show ?thesis
    by (auto simp: path_invariant_def segments_slash)
qed

lemma normalize_id:
  assumes "path_invariant s" and "no_trailing_slash s"
  shows "normalize s = s"
proof (cases "s = ''/''")
  case True
  then show ?thesis by (simp add: normalize_def)
next
  case False
  from assms(1) obtain t where t: "s = CHR ''/'' # t"
    by (auto simp: path_invariant_def first_is_slash_iff)
  with False have ne: "t \<noteq> []" by simp
  from strict_segments[OF assms False] t
  have segs: "\<forall>x\<in>set (split_on CHR ''/'' t). x \<noteq> [] \<and> x \<noteq> ''.'' \<and> x \<noteq> ''..''"
    by (simp add: segments_slash)
  then have "normalizeString False [] (split_on CHR ''/'' s) = split_on CHR ''/'' t"
    using t by (simp add: normalizeString_proper)
  moreover have "last s \<noteq> CHR ''/''"
    using assms(2) False by (simp add: no_trailing_slash_def)
  ultimately show ?thesis
    using t ne by (simp add: normalize_def Let_def join_split)
qed

subsection \<open>Relative paths\<close>

text \<open>
  \<^verbatim>\<open>relative\<close> fails exactly when the string of the base is no prefix, character
  by character, of the string of the path.
\<close>

lemma relative_fails_iff:
  "relative this base = Inl NotASubpathError
     \<longleftrightarrow> \<not> prefix (path_string base) (path_string this)"
  by (simp add: relative_def startsWith_def)

text \<open>
  For a base other than the root, and strings without a trailing slash, joining
  the relative path back onto the base gives the target whenever the segments of
  the target start with those of the base.
\<close>

lemma relative_join_roundtrip:
  assumes base: "path_invariant (path_string base)" "no_trailing_slash (path_string base)"
    and target: "path_invariant (path_string target)" "no_trailing_slash (path_string target)"
    and not_root: "path_string base \<noteq> ''/''"
    and starts: "prefix (segments (path_string base)) (segments (path_string target))"
  shows "\<exists>r. relative target base = Inr r \<and> join base [r] = Inr target"
proof -
  from base(1) obtain b where b: "path_string base = CHR ''/'' # b"
    by (auto simp: path_invariant_def first_is_slash_iff)
  from target(1) obtain t where t: "path_string target = CHR ''/'' # t"
    by (auto simp: path_invariant_def first_is_slash_iff)
  let ?bs = "split_on CHR ''/'' b" and ?ts = "split_on CHR ''/'' t"
  from starts b t obtain rest where rest: "?ts = ?bs @ rest"
    by (auto simp: segments_slash prefix_def)
  have bsegs: "\<forall>x\<in>set ?bs. x \<noteq> [] \<and> x \<noteq> ''.'' \<and> x \<noteq> ''..''"
    using strict_segments[OF base not_root] b by (simp add: segments_slash)
  have rel: "relative target base = Inr (join_with ''/'' rest)"
    if "prefix b t"
    using that b t rest by (simp add: relative_def startsWith_def)
  show ?thesis
  proof (cases "rest = []")
    case True
    with rest have "join_with ''/'' ?ts = join_with ''/'' ?bs" by simp
    then have same: "t = b" by (simp add: join_split)
    with b t have "target = base"
      by (simp add: path.expand)
    with rel same True show ?thesis
      by (simp add: join_def first_is_slash_def)
  next
    case False
    have "join_with ''/'' ?ts = join_with ''/'' ?bs @ ''/'' @ join_with ''/'' rest"
      using rest False by (simp add: join_with_append)
    then have tb: "t = b @ ''/'' @ join_with ''/'' rest"
      by (simp add: join_split)
    then have pre: "prefix b t" by simp
    have "path_string target \<noteq> ''/''"
      using t tb by simp
    from strict_segments[OF target this] t rest
    have rsegs: "\<forall>x\<in>set rest. x \<noteq> [] \<and> x \<noteq> ''.'' \<and> x \<noteq> ''..''"
      by (simp add: segments_slash)
    obtain r rs where r: "rest = r # rs"
      using False by (cases rest) auto
    with rsegs have "r \<noteq> []" by simp
    moreover have "CHR ''/'' \<notin> set r"
      using split_on_no_sep[of r "CHR ''/''" t] rest r by simp
    ultimately have hd_r: "join_with ''/'' rest \<noteq> [] \<and> hd (join_with ''/'' rest) \<noteq> CHR ''/''"
      using r by (cases r; cases rs) auto
    then have nf: "\<not> first_is_slash (join_with ''/'' rest)"
      by (cases "join_with ''/'' rest") (auto simp: first_is_slash_def)
    have "path_string base @ ''/'' @ join_with ''/'' rest = path_string target"
      using b t tb by simp
    moreover have "normalize (path_string target) = path_string target"
      using target by (rule normalize_id)
    moreover have "first_is_slash (path_string target)"
      using t by (simp add: first_is_slash_def)
    ultimately have "join base [join_with ''/'' rest] = Inr target"
      using nf hd_r by (simp add: join_def new_Path_ok)
    with rel[OF pre] show ?thesis by blast
  qed
qed

subsection \<open>The filesystem calls\<close>













subsection \<open>Writing, removing and moving\<close>









section \<open>The claims\<close>

subsection \<open>C1: \<^verbatim>\<open>relative\<close> and the segment boundary\<close>

text \<open>
  C1 asks \<^verbatim>\<open>relative\<close> to fail with \<open>NotASubpathError\<close> whenever the base is
  not a prefix of the path segment by segment, as for the base \<^verbatim>\<open>/foo\<close> and
  the path \<^verbatim>\<open>/foobar\<close>. The method tests \<^verbatim>\<open>this.string.startsWith(base.string)\<close>,
  a prefix of characters: \<^verbatim>\<open>/foobar\<close> starts with \<^verbatim>\<open>/foo\<close>, both strings have
  three components once \<^verbatim>\<open>"/"\<close> is put in front, nothing is left to join, and
  the call returns the empty string instead of failing.
\<close>

theorem relative_string_prefix_only:
  "new_Path ''/foo'' = Inr (Path ''/foo'')
   \<and> new_Path ''/foobar'' = Inr (Path ''/foobar'')
   \<and> relative (Path ''/foobar'') (Path ''/foo'') = Inr ''''"
  by (simp add: new_Path_def first_is_slash_def normalize_def relative_def startsWith_def)

subsection \<open>C2: joining the relative path back onto the base\<close>

text \<open>
  C2 asks \<open>base.join(target.relative(to: base))\<close> to be \<open>target\<close> whenever the
  segments of \<open>target\<close> start with those of \<open>base\<close>, the root included. For the
  root the method counts one component too many: \<^verbatim>\<open>"/".split("/")\<close> has two
  pieces, both empty, so the first segment of the target is dropped.
  Relative to the root, \<^verbatim>\<open>/foo\<close> is the empty string, which joins back to the
  root, and \<^verbatim>\<open>/foo/bar\<close> is \<^verbatim>\<open>bar\<close>, which joins back to \<^verbatim>\<open>/bar\<close>. For every
  other base the property holds (lemma \<open>relative_join_roundtrip\<close>).
\<close>

theorem relative_to_root_drops_segment:
  "relative (Path ''/foo'') root = Inr ''''
   \<and> join root [''''] = Inr root
   \<and> root \<noteq> Path ''/foo''
   \<and> relative (Path ''/foo/bar'') root = Inr ''bar''
   \<and> join root [''bar''] = Inr (Path ''/bar'')"
  by (simp add: root_def relative_def startsWith_def join_def first_is_slash_def
        new_Path_def normalize_def)

subsection \<open>C3: the invariant of the stored string\<close>




subsection \<open>C4: \<^verbatim>\<open>write\<close> and an existing entry\<close>




subsection \<open>C5: \<^verbatim>\<open>mv\<close> without \<open>force\<close>\<close>




subsection \<open>C6: \<^verbatim>\<open>mv\<close> with \<open>force\<close> onto a directory\<close>

text \<open>
  C6 asks \<^verbatim>\<open>mv\<close> with \<open>force\<close> to fail with \<open>IsADirectoryError\<close> when the
  destination is an existing directory, as the comment on the method says
  (\<^verbatim>\<open>force will still throw if to is a directory\<close>). The method hands \<open>force\<close> to
  \<^verbatim>\<open>moveSync\<close> as \<open>overwrite\<close>, which removes an existing destination with all
  its content before it renames: the directory and what it holds are gone, the
  file has taken its place, and no error is raised.
\<close>

theorem mv_force_replaces_directory:
  "map_of [(''/a'', File ''x''), (''/d'', Dir), (''/d/y'', File ''z'')] (path_string (Path ''/d''))
     = Some Dir
   \<and> mv [(''/a'', File ''x''), (''/d'', Dir), (''/d/y'', File ''z'')] (Path ''/a'')
        (To (Path ''/d'')) (Some True)
     = Inr ([(''/d'', File ''x'')], Path ''/d'')"
  by code_simp

subsection \<open>C7: \<^verbatim>\<open>readlink\<close> on a symlink\<close>



subsection \<open>C8: the three cases of \<^verbatim>\<open>join\<close>\<close>

text \<open>
  C8: with the components joined by slashes, \<^verbatim>\<open>join\<close> returns the path of the
  joined string when that is absolute (the base is discarded), the path itself
  when it is empty, and the path of \<open>base + "/" + joined\<close>, normalized, otherwise.
  So \<^verbatim>\<open>Path("/tmp/x").join("y","z")\<close> is \<^verbatim>\<open>Path("/tmp/x/y/z")\<close> and
  \<^verbatim>\<open>Path("/tmp/x").join("/abs")\<close> is \<^verbatim>\<open>Path("/abs")\<close>.
\<close>

theorem join_cases:
  "(first_is_slash (join_with ''/'' components) \<longrightarrow>
      join this components = new_Path (join_with ''/'' components)
      \<and> join this components = Inr (Path (normalize (join_with ''/'' components))))
   \<and> (join_with ''/'' components = [] \<longrightarrow> join this components = Inr this)
   \<and> (\<not> first_is_slash (join_with ''/'' components) \<and> join_with ''/'' components \<noteq> []
        \<and> first_is_slash (path_string this) \<longrightarrow>
      join this components
        = Inr (Path (normalize (path_string this @ ''/'' @ join_with ''/'' components))))
   \<and> join (Path ''/tmp/x'') [''y'', ''z''] = Inr (Path ''/tmp/x/y/z'')
   \<and> join (Path ''/tmp/x'') [''/abs''] = Inr (Path ''/abs'')"
proof -
  let ?joined = "join_with ''/'' components"
  have absolute: "first_is_slash ?joined \<Longrightarrow>
      join this components = new_Path ?joined
      \<and> join this components = Inr (Path (normalize ?joined))"
    by (simp add: join_def new_Path_ok)
  have empty: "?joined = [] \<Longrightarrow> join this components = Inr this"
    by (simp add: join_def first_is_slash_def)
  have relative: "\<not> first_is_slash ?joined \<Longrightarrow> ?joined \<noteq> [] \<Longrightarrow>
      first_is_slash (path_string this) \<Longrightarrow>
      join this components = Inr (Path (normalize (path_string this @ ''/'' @ ?joined)))"
    using first_is_slash_append[of "path_string this" "''/'' @ ?joined"]
    by (simp add: join_def new_Path_ok)
  have ex1: "join (Path ''/tmp/x'') [''y'', ''z''] = Inr (Path ''/tmp/x/y/z'')"
    by (simp add: join_def new_Path_def first_is_slash_def normalize_def)
  have ex2: "join (Path ''/tmp/x'') [''/abs''] = Inr (Path ''/abs'')"
    by (simp add: join_def new_Path_def first_is_slash_def normalize_def)
  from absolute empty relative ex1 ex2 show ?thesis by blast
qed

theorem join_cases_witness:
  "first_is_slash (join_with ''/'' [''/abs'', ''q''])
   \<and> join (Path ''/tmp/x'') [''/abs'', ''q''] = Inr (Path ''/abs/q'')
   \<and> join_with ''/'' [] = []
   \<and> join (Path ''/tmp/x'') [] = Inr (Path ''/tmp/x'')
   \<and> \<not> first_is_slash (join_with ''/'' [''y'', ''..'', ''z''])
   \<and> first_is_slash (path_string (Path ''/tmp/x''))
   \<and> join (Path ''/tmp/x'') [''y'', ''..'', ''z''] = Inr (Path ''/tmp/x/z'')"
  using join_cases[of "[''/abs'', ''q'']" "Path ''/tmp/x''"]
    join_cases[of "[]" "Path ''/tmp/x''"]
    join_cases[of "[''y'', ''..'', ''z'']" "Path ''/tmp/x''"]
  by (simp add: first_is_slash_def normalize_def new_Path_def)

subsection \<open>C9: \<^verbatim>\<open>rm\<close> where nothing exists\<close>



subsection \<open>C10: \<^verbatim>\<open>rm\<close> on a dangling symlink\<close>



end
